theory Spec2Isabelle
  imports Complex_Main "HOL-Library.Multiset"
begin

section \<open>Python values used by the services\<close>

text \<open>
  The services are plain Python over strings, lists, dicts and numbers. Strings are
  modelled as \<open>char list\<close> with the ASCII reading of \<open>lower\<close>, whitespace and word
  characters; scores are real numbers (the arithmetic of the source's floats without
  rounding); counts are \<open>int\<close> or \<open>nat\<close>. Exceptions are values of \<open>error\<close>.
\<close>

datatype error = ValueError | IndexError | KeyError

subsection \<open>String operations\<close>

definition lower_char :: "char \<Rightarrow> char" where
  "lower_char c =
     (let n = (of_char c :: nat) in if 65 \<le> n \<and> n \<le> 90 then char_of (n + 32) else c)"

definition lower :: "string \<Rightarrow> string" where
  "lower s = map lower_char s"

definition is_space :: "char \<Rightarrow> bool" where
  "is_space c = (of_char c \<in> {9, 10, 11, 12, 13, 28, 29, 30, 31, 32 :: nat})"

definition is_word_char :: "char \<Rightarrow> bool" where
  "is_word_char c =
     (let n = (of_char c :: nat)
      in (48 \<le> n \<and> n \<le> 57) \<or> (65 \<le> n \<and> n \<le> 90) \<or> n = 95 \<or> (97 \<le> n \<and> n \<le> 122))"

text \<open>\<open>s.strip()\<close>\<close>

definition strip :: "string \<Rightarrow> string" where
  "strip s = rev (dropWhile is_space (rev (dropWhile is_space s)))"

text \<open>
  Maximal runs of characters that are not separators: \<open>s.split()\<close> with whitespace as
  separator, and \<open>re.findall(r'\b\w+\b', s)\<close> with the non-word characters as separator.
\<close>

fun tokens :: "(char \<Rightarrow> bool) \<Rightarrow> string \<Rightarrow> string \<Rightarrow> string list" where
  "tokens sep cur [] = (if cur = [] then [] else [cur])"
| "tokens sep cur (c # cs) =
     (if sep c then (if cur = [] then tokens sep [] cs else cur # tokens sep [] cs)
      else tokens sep (cur @ [c]) cs)"

definition split_ws :: "string \<Rightarrow> string list" where
  "split_ws s = tokens is_space [] s"

definition findall_words :: "string \<Rightarrow> string list" where
  "findall_words s = tokens (\<lambda>c. \<not> is_word_char c) [] s"

text \<open>\<open>s.split(d)\<close> for a one-character separator: never empty, one piece more than separators.\<close>

fun split_on :: "char \<Rightarrow> string \<Rightarrow> string list" where
  "split_on d [] = [[]]"
| "split_on d (c # cs) =
     (if c = d then [] # split_on d cs
      else (case split_on d cs of [] \<Rightarrow> [[c]] | x # xs \<Rightarrow> (c # x) # xs))"

fun starts_with :: "string \<Rightarrow> string \<Rightarrow> bool" where
  "starts_with s [] = True"
| "starts_with [] (p # ps) = False"
| "starts_with (c # cs) (p # ps) = (c = p \<and> starts_with cs ps)"

definition ends_with :: "string \<Rightarrow> string \<Rightarrow> bool" where
  "ends_with s p = starts_with (rev s) (rev p)"

text \<open>\<open>p in s\<close> for strings.\<close>

fun contains :: "string \<Rightarrow> string \<Rightarrow> bool" where
  "contains [] p = (p = [])"
| "contains (c # cs) p = (starts_with (c # cs) p \<or> contains cs p)"

text \<open>\<open>s.count(p)\<close>: non-overlapping occurrences, scanning from the left.\<close>

fun count_from :: "nat \<Rightarrow> string \<Rightarrow> string \<Rightarrow> nat" where
  "count_from k p [] = 0"
| "count_from (Suc k) p (c # cs) = count_from k p cs"
| "count_from 0 p (c # cs) =
     (if starts_with (c # cs) p then Suc (count_from (length p - 1) p cs)
      else count_from 0 p cs)"

definition str_count :: "string \<Rightarrow> string \<Rightarrow> nat" where
  "str_count s p = (if p = [] then Suc (length s) else count_from 0 p s)"

text \<open>\<open>any(p in s for p in ps)\<close> and \<open>sum(1 for p in ps if p in s)\<close>.\<close>

definition any_in :: "string list \<Rightarrow> string \<Rightarrow> bool" where
  "any_in ps s = list_ex (\<lambda>p. contains s p) ps"

definition count_in :: "string list \<Rightarrow> string \<Rightarrow> nat" where
  "count_in ps s = length (filter (\<lambda>p. contains s p) ps)"

text \<open>\<open>s[-n:]\<close>: the last \<open>n\<close> characters, the whole string when it is shorter.\<close>

definition last_chars :: "nat \<Rightarrow> string \<Rightarrow> string" where
  "last_chars n s = drop (length s - n) s"

section \<open>Answer analysis (services/answer\_analyzer.py)\<close>

record content_analysis =
  ca_word_count :: int
  ca_sentence_count :: int
  ca_relevance_score :: real
  ca_depth_score :: real
  ca_has_examples :: bool

record word_types =
  nouns :: int
  verbs :: int
  adjectives :: int

record linguistic_analysis =
  la_readability_score :: real
  la_grade_level :: real
  la_avg_sentence_length :: real
  la_vocabulary_diversity :: real
  la_word_types :: word_types

record technical_analysis =
  ta_technical_categories :: "(string \<times> real) list"
  ta_role_technical_score :: real
  ta_has_code_example :: bool
  ta_overall_technical_score :: real

record structure_analysis =
  sa_star_score :: int
  sa_star_components :: "(string \<times> bool) list"
  sa_has_logical_flow :: bool
  sa_has_introduction :: bool
  sa_has_conclusion :: bool
  sa_structure_score :: real

record confidence_analysis =
  cf_confidence_score :: real
  cf_high_confidence_indicators :: int
  cf_low_confidence_indicators :: int
  cf_hedge_word_count :: int
  cf_sentiment_score :: real

record completeness_analysis =
  cp_word_count :: int
  cp_length_score :: real
  cp_addresses_all_parts :: bool
  cp_completeness_score :: real

text \<open>The dict \<open>analysis\<close> as \<open>analyze\<close> builds it before the scores are added.\<close>

record sub_analyses =
  content_analysis :: content_analysis
  linguistic_analysis :: linguistic_analysis
  technical_analysis :: technical_analysis
  structure_analysis :: structure_analysis
  confidence_analysis :: confidence_analysis
  completeness_analysis :: completeness_analysis

record scores =
  overall_score :: real
  content_score :: real
  technical_score :: real
  structure_score :: real
  confidence_score :: real
  completeness_score :: real
  communication_score :: real

text \<open>
  The dict \<open>_generate_insufficient_answer_analysis\<close> returns has fewer keys: no
  \<open>linguistic_analysis\<close>, no \<open>has_examples\<close>, no \<open>star_score\<close>, no \<open>hedge_word_count\<close>.
\<close>

record insufficient_analysis =
  ia_relevance_score :: real
  ia_depth_score :: real
  ia_word_count :: int
  ia_overall_technical_score :: real
  ia_structure_score :: real
  ia_confidence_score :: real
  ia_completeness_score :: real
  ia_scores :: scores

text \<open>What \<open>analyze\<close> returns: one of the two dict shapes.\<close>

datatype analysis =
  Analysis sub_analyses scores
| Insufficient insufficient_analysis

text \<open>
  The results of the libraries the analyzer calls on the answer (textstat, spaCy, NLTK's
  sentiment analyzer); \<open>None\<close> where the library is missing or raises, which the source
  catches and replaces by its defaults.
\<close>

record spacy_doc =
  doc_nouns :: nat
  doc_verbs :: nat
  doc_adjectives :: nat
  doc_tokens :: nat
  doc_sents :: nat
  doc_alpha_lemmas :: nat

record nlp_results =
  textstat_scores :: "(real \<times> real) option"
  spacy_result :: "spacy_doc option"
  vader_compound :: "real option"

definition confidence_keywords_high :: "string list" where
  "confidence_keywords_high =
     [''confident'', ''certain'', ''definitely'', ''absolutely'', ''sure'', ''positive'']"

definition confidence_keywords_low :: "string list" where
  "confidence_keywords_low =
     [''maybe'', ''perhaps'', ''might'', ''possibly'', ''unsure'', ''think'', ''guess'']"

definition technical_keywords :: "(string \<times> string list) list" where
  "technical_keywords =
     [(''architecture'', [''design'', ''architecture'', ''pattern'', ''structure'', ''framework'']),
      (''performance'', [''optimize'', ''performance'', ''speed'', ''efficient'', ''scalable'']),
      (''security'', [''security'', ''authentication'', ''authorization'', ''encryption'', ''vulnerability'']),
      (''testing'', [''test'', ''testing'', ''unit test'', ''integration'', ''debugging'']),
      (''collaboration'', [''team'', ''collaborate'', ''communication'', ''meeting'', ''review''])]"

definition depth_indicators :: "string list" where
  "depth_indicators =
     [''because'', ''therefore'', ''however'', ''additionally'', ''furthermore'', ''for example'', ''such as'']"

definition analyze_content :: "string \<Rightarrow> string \<Rightarrow> string \<Rightarrow> content_analysis" where
  "analyze_content answer question category =
     (let word_count = int (length (split_ws answer));
          sentence_count = int (length (filter (\<lambda>s. strip s \<noteq> []) (split_on CHR ''.'' answer)));
          question_keywords = set (findall_words (lower question));
          answer_keywords = set (findall_words (lower answer));
          relevance_score = of_nat (card (question_keywords \<inter> answer_keywords))
                            / of_nat (max (card question_keywords) 1) * 100;
          depth_score = of_nat (count_in depth_indicators (lower answer)) * 10
      in \<lparr> ca_word_count = word_count,
           ca_sentence_count = sentence_count,
           ca_relevance_score = min 100 relevance_score,
           ca_depth_score = min 100 depth_score,
           ca_has_examples =
             any_in [''for example'', ''such as'', ''like when'', ''instance''] (lower answer) \<rparr>)"

definition analyze_linguistics :: "nlp_results \<Rightarrow> string \<Rightarrow> linguistic_analysis" where
  "analyze_linguistics nlp answer =
     (let (readability, grade_level) =
            (case textstat_scores nlp of Some rg \<Rightarrow> rg | None \<Rightarrow> (50, 10));
          words = split_ws answer;
          (wt, avg_sentence_length, vocabulary_diversity) =
            (case spacy_result nlp of
               Some doc \<Rightarrow>
                 (\<lparr> nouns = int (doc_nouns doc), verbs = int (doc_verbs doc),
                    adjectives = int (doc_adjectives doc) \<rparr>,
                  of_nat (doc_tokens doc) / of_nat (max (doc_sents doc) 1),
                  of_nat (doc_alpha_lemmas doc) / of_nat (max (doc_tokens doc) 1))
             | None \<Rightarrow>
                 (\<lparr> nouns = int (length (filter (\<lambda>w. ends_with w ''tion'' \<or> ends_with w ''ness'') words)),
                    verbs = int (length (filter (\<lambda>w. ends_with w ''ed'' \<or> ends_with w ''ing'') words)),
                    adjectives = int (length (filter (\<lambda>w. ends_with w ''ly'') words)) \<rparr>,
                  of_nat (length words) / of_nat (max (length (split_on CHR ''.'' answer)) 1),
                  of_nat (card (set words)) / of_nat (max (length words) 1)))
      in \<lparr> la_readability_score = max 0 (min 100 readability),
           la_grade_level = grade_level,
           la_avg_sentence_length = avg_sentence_length,
           la_vocabulary_diversity = vocabulary_diversity * 100,
           la_word_types = wt \<rparr>)"

definition role_terms :: "(string \<times> string list) list" where
  "role_terms =
     [(''software engineer'', [''algorithm'', ''data structure'', ''api'', ''framework'', ''library'', ''debugging'']),
      (''frontend developer'', [''responsive'', ''dom'', ''css'', ''javascript'', ''react'', ''vue'', ''angular'']),
      (''backend developer'', [''database'', ''server'', ''api'', ''microservices'', ''authentication'', ''caching'']),
      (''data scientist'', [''model'', ''dataset'', ''analysis'', ''statistics'', ''machine learning'', ''visualization'']),
      (''devops engineer'', [''deployment'', ''infrastructure'', ''monitoring'', ''automation'', ''pipeline'', ''container''])]"

definition get_role_technical_terms :: "string \<Rightarrow> string list" where
  "get_role_technical_terms job_role =
     (case find (\<lambda>(role, terms). contains (lower job_role) role) role_terms of
        Some (role, terms) \<Rightarrow> terms
      | None \<Rightarrow> [''technology'', ''system'', ''solution'', ''implementation'', ''development''])"

definition analyze_technical_content :: "string \<Rightarrow> string \<Rightarrow> technical_analysis" where
  "analyze_technical_content answer job_role =
     (let answer_lower = lower answer;
          technical_scores =
            map (\<lambda>(category, keywords). (category, min 100 (of_nat (count_in keywords answer_lower) * 20)))
              technical_keywords;
          role_term_count = count_in (get_role_technical_terms job_role) answer_lower
      in \<lparr> ta_technical_categories = technical_scores,
           ta_role_technical_score = min 100 (of_nat role_term_count * 15),
           ta_has_code_example =
             any_in [''function'', ''class'', ''method'', ''algorithm'', ''data structure'', ''database'']
               answer_lower,
           ta_overall_technical_score =
             sum_list (map snd technical_scores) / of_nat (max (length technical_scores) 1) \<rparr>)"

definition star_indicators :: "(string \<times> string list) list" where
  "star_indicators =
     [(''situation'', [''situation'', ''context'', ''background'', ''when'', ''where'']),
      (''task'', [''task'', ''responsibility'', ''goal'', ''objective'', ''needed to'']),
      (''action'', [''action'', ''did'', ''implemented'', ''developed'', ''created'', ''decided'']),
      (''result'', [''result'', ''outcome'', ''achieved'', ''improved'', ''increased'', ''successful''])]"

definition flow_indicators :: "string list" where
  "flow_indicators = [''first'', ''then'', ''next'', ''finally'', ''in conclusion'', ''therefore'']"

definition conclusion_phrases :: "string list" where
  "conclusion_phrases = [''in conclusion'', ''to summarize'', ''overall'', ''in summary'']"

definition analyze_structure :: "string \<Rightarrow> string \<Rightarrow> structure_analysis" where
  "analyze_structure answer category =
     (let star_components =
            (if category = ''behavioral''
             then map (\<lambda>(component, indicators). (component, any_in indicators (lower answer)))
                    star_indicators
             else []);
          star_score = 25 * int (length (filter snd star_components));
          has_logical_flow = (count_in flow_indicators (lower answer) > 0);
          has_introduction =
            (if CHR ''.'' \<in> set answer then length (hd (split_on CHR ''.'' answer)) > 20 else False);
          has_conclusion = any_in conclusion_phrases (last_chars 100 (lower answer))
      in \<lparr> sa_star_score = star_score,
           sa_star_components = star_components,
           sa_has_logical_flow = has_logical_flow,
           sa_has_introduction = has_introduction,
           sa_has_conclusion = has_conclusion,
           sa_structure_score =
             of_int (star_score + (if has_logical_flow then 25 else 0)
                     + (if has_introduction then 15 else 0) + (if has_conclusion then 10 else 0)) \<rparr>)"

definition hedge_words :: "string list" where
  "hedge_words = [''kind of'', ''sort of'', ''i think'', ''i believe'', ''probably'', ''maybe'']"

text \<open>The value the source clamps into \<open>confidence_score\<close>.\<close>

definition confidence_formula :: "int \<Rightarrow> int \<Rightarrow> int \<Rightarrow> int" where
  "confidence_formula high_confidence low_confidence hedge_count =
     (high_confidence * 15) - (low_confidence * 10) - (hedge_count * 5) + 50"

definition analyze_confidence :: "nlp_results \<Rightarrow> string \<Rightarrow> confidence_analysis" where
  "analyze_confidence nlp answer =
     (let answer_lower = lower answer;
          high_confidence = int (count_in confidence_keywords_high answer_lower);
          low_confidence = int (count_in confidence_keywords_low answer_lower);
          hedge_count = int (count_in hedge_words answer_lower);
          confidence_score =
            max 0 (min 100 (confidence_formula high_confidence low_confidence hedge_count));
          sentiment_score =
            (case vader_compound nlp of
               Some compound \<Rightarrow> max 0 (min 100 ((compound + 1) * 50))
             | None \<Rightarrow> 50)
      in \<lparr> cf_confidence_score = of_int confidence_score,
           cf_high_confidence_indicators = high_confidence,
           cf_low_confidence_indicators = low_confidence,
           cf_hedge_word_count = hedge_count,
           cf_sentiment_score = sentiment_score \<rparr>)"

definition expected_lengths :: "(string \<times> (int \<times> int)) list" where
  "expected_lengths =
     [(''technical'', (100, 300)), (''behavioral'', (150, 400)),
      (''situational'', (100, 250)), (''general'', (50, 200))]"

definition expected_band :: "string \<Rightarrow> int \<times> int" where
  "expected_band category =
     (case map_of expected_lengths category of Some band \<Rightarrow> band | None \<Rightarrow> (100, 250))"

definition analyze_completeness :: "string \<Rightarrow> string \<Rightarrow> string \<Rightarrow> completeness_analysis" where
  "analyze_completeness answer question category =
     (let word_count = int (length (split_ws answer));
          (min_length, max_length) = expected_band category;
          length_score =
            (if word_count < min_length then (of_int word_count / of_int min_length) * 70
             else if word_count > max_length
               then max 70 (100 - (of_int (word_count - max_length) / of_int max_length) * 30)
             else 100);
          question_parts =
            max 1 (int (str_count question ''?'' + str_count question ''and'' + str_count question ''or''));
          addresses_all_parts = (int (length (split_on CHR ''.'' answer)) \<ge> question_parts)
      in \<lparr> cp_word_count = word_count,
           cp_length_score = length_score,
           cp_addresses_all_parts = addresses_all_parts,
           cp_completeness_score = (length_score + (if addresses_all_parts then 20 else 0)) / 1.2 \<rparr>)"

definition calculate_scores :: "sub_analyses \<Rightarrow> scores" where
  "calculate_scores analysis =
     (let content_score = (ca_relevance_score (content_analysis analysis)
                           + ca_depth_score (content_analysis analysis)) / 2;
          technical_score = ta_overall_technical_score (technical_analysis analysis);
          structure_score = sa_structure_score (structure_analysis analysis);
          confidence_score = cf_confidence_score (confidence_analysis analysis);
          completeness_score = cp_completeness_score (completeness_analysis analysis);
          overall_score = content_score * 0.25 + technical_score * 0.25 + structure_score * 0.20
                          + confidence_score * 0.15 + completeness_score * 0.15
      in \<lparr> overall_score = min 100 (max 0 overall_score),
           content_score = content_score,
           technical_score = technical_score,
           structure_score = structure_score,
           confidence_score = confidence_score,
           completeness_score = completeness_score,
           communication_score =
             (la_readability_score (linguistic_analysis analysis) + confidence_score) / 2 \<rparr>)"

definition generate_insufficient_answer_analysis :: insufficient_analysis where
  "generate_insufficient_answer_analysis =
     \<lparr> ia_relevance_score = 0, ia_depth_score = 0, ia_word_count = 0,
       ia_overall_technical_score = 0, ia_structure_score = 0, ia_confidence_score = 0,
       ia_completeness_score = 0,
       ia_scores = \<lparr> overall_score = 0, content_score = 0, technical_score = 0,
                     structure_score = 0, confidence_score = 0, completeness_score = 0,
                     communication_score = 0 \<rparr> \<rparr>"

definition analyze :: "nlp_results \<Rightarrow> string \<Rightarrow> string \<Rightarrow> string \<Rightarrow> string \<Rightarrow> analysis" where
  "analyze nlp question answer category job_role =
     (if answer = [] \<or> length (strip answer) < 10
      then Insufficient generate_insufficient_answer_analysis
      else (let analysis =
                  \<lparr> content_analysis = analyze_content answer question category,
                    linguistic_analysis = analyze_linguistics nlp answer,
                    technical_analysis = analyze_technical_content answer job_role,
                    structure_analysis = analyze_structure answer category,
                    confidence_analysis = analyze_confidence nlp answer,
                    completeness_analysis = analyze_completeness answer question category \<rparr>
            in Analysis analysis (calculate_scores analysis)))"

text \<open>\<open>analysis['scores']\<close>, present in both shapes.\<close>

fun scores_of :: "analysis \<Rightarrow> scores" where
  "scores_of (Analysis subs sc) = sc"
| "scores_of (Insufficient ia) = ia_scores ia"

section \<open>Exceptions and randomness\<close>

definition bind_err :: "error + 'a \<Rightarrow> ('a \<Rightarrow> error + 'b) \<Rightarrow> error + 'b" where
  "bind_err m f = (case m of Inl e \<Rightarrow> Inl e | Inr x \<Rightarrow> f x)"

text \<open>\<open>d[k]\<close> on a dict given as an association list.\<close>

definition lookup :: "('k \<times> 'v) list \<Rightarrow> 'k \<Rightarrow> error + 'v" where
  "lookup d k = (case map_of d k of None \<Rightarrow> Inl KeyError | Some v \<Rightarrow> Inr v)"

text \<open>\<open>int(x)\<close> on a float: truncation towards zero.\<close>

definition py_int :: "real \<Rightarrow> int" where
  "py_int x = (if 0 \<le> x then \<lfloor>x\<rfloor> else \<lceil>x\<rceil>)"

text \<open>\<open>xs[:n]\<close>\<close>

definition slice_to :: "'a list \<Rightarrow> int \<Rightarrow> 'a list" where
  "slice_to xs n = (if 0 \<le> n then take (nat n) xs else take (length xs - nat (- n)) xs)"

text \<open>
  The module \<open>random\<close> is modelled by the sequence of numbers it draws: every function
  that uses it takes the sequence and returns what is left. \<open>randbelow g n\<close> reduces
  the next draw below \<open>n\<close>; an exhausted sequence draws 0.
\<close>

type_synonym rng = "nat list"

fun randbelow :: "rng \<Rightarrow> nat \<Rightarrow> nat \<times> rng" where
  "randbelow [] n = (0, [])"
| "randbelow (r # g) n = (r mod n, g)"

text \<open>Draw \<open>k\<close> positions, removing each drawn item from the pool before the next draw.\<close>

fun sample_from :: "rng \<Rightarrow> 'a list \<Rightarrow> nat \<Rightarrow> 'a list \<times> rng" where
  "sample_from g pool 0 = ([], g)"
| "sample_from g [] (Suc k) = ([], g)"
| "sample_from g (x # xs) (Suc k) =
     (let (j, g1) = randbelow g (Suc (length xs));
          (rest, g2) = sample_from g1 (take j (x # xs) @ drop (Suc j) (x # xs)) k
      in ((x # xs) ! j # rest, g2))"

text \<open>\<open>random.sample(population, k)\<close>: ValueError when \<open>k\<close> is negative or exceeds the population.\<close>

definition random_sample :: "rng \<Rightarrow> 'a list \<Rightarrow> int \<Rightarrow> error + ('a list \<times> rng)" where
  "random_sample g population k =
     (if k < 0 \<or> int (length population) < k then Inl ValueError
      else Inr (sample_from g population (nat k)))"

text \<open>\<open>random.choice(seq)\<close>: IndexError on an empty sequence.\<close>

definition random_choice :: "rng \<Rightarrow> 'a list \<Rightarrow> error + ('a \<times> rng)" where
  "random_choice g seq =
     (if seq = [] then Inl IndexError
      else (let (j, g1) = randbelow g (length seq) in Inr (seq ! j, g1)))"

text \<open>\<open>random.shuffle(xs)\<close>: the list in a drawn order.\<close>

definition random_shuffle :: "rng \<Rightarrow> 'a list \<Rightarrow> 'a list \<times> rng" where
  "random_shuffle g xs = sample_from g xs (length xs)"

section \<open>Question generation (services/question\_generator.py)\<close>

record question =
  q_question :: string
  q_category :: string
  q_difficulty :: string
  q_skill :: "string option"
  q_role :: "string option"
  q_expectedAnswer :: "string option"

record distribution =
  d_technical :: int
  d_behavioral :: int
  d_situational :: int
  d_general :: int

definition question_templates :: "(string \<times> (string \<times> string list) list) list" where
  "question_templates =
     [(''technical'',
        [(''easy'',
           [''What is {skill} and how have you used it?'',
            ''Explain the basics of {skill}.'',
            ''What are the main features of {skill}?'',
            ''How would you describe {skill} to a beginner?'',
            ''What drew you to learning {skill}?'']),
         (''medium'',
           [''Describe a project where you used {skill}. What challenges did you face?'',
            ''How would you optimize performance in a {skill} application?'',
            ''What are the best practices you follow when working with {skill}?'',
            ''Compare {skill} with similar technologies. What are the pros and cons?'',
            ''Walk me through how you would debug an issue in {skill}.'']),
         (''hard'',
           [''Design a scalable system using {skill}. What architecture would you choose?'',
            ''How would you handle concurrency issues in {skill}?'',
            ''Explain the internals of {skill}. How does it work under the hood?'',
            ''What are the security considerations when using {skill}?'',
            ''How would you migrate a large codebase from another technology to {skill}?''])]),
      (''behavioral'',
        [(''easy'',
           [''Tell me about yourself and your background.'',
            ''Why are you interested in this role?'',
            ''What are your greatest strengths?'',
            ''Where do you see yourself in 5 years?'',
            ''Why do you want to work for our company?'']),
         (''medium'',
           [''Describe a time when you had to learn a new technology quickly.'',
            ''Tell me about a challenging project you worked on.'',
            ''How do you handle working under pressure?'',
            ''Describe a time when you had to work with a difficult team member.'',
            ''What's the most innovative solution you've implemented?'']),
         (''hard'',
           [''Tell me about a time when you failed and how you handled it.'',
            ''Describe a situation where you had to make a decision with incomplete information.'',
            ''How would you handle a disagreement with your manager about technical direction?'',
            ''Tell me about a time when you had to convince others to adopt your approach.'',
            ''Describe the most complex problem you've solved and your approach.''])]),
      (''situational'',
        [(''easy'',
           [''How would you approach learning a new programming language?'',
            ''What would you do if you encountered a bug you couldn't solve?'',
            ''How do you stay updated with new technologies?'',
            ''What's your process for code review?'',
            ''How do you prioritize tasks when everything seems urgent?'']),
         (''medium'',
           [''Your team is behind schedule on a project. How would you help catch up?'',
            ''You discover a security vulnerability in production. What's your approach?'',
            ''How would you onboard a new team member?'',
            ''A client wants a feature that you think is technically unfeasible. How do you handle it?'',
            ''You disagree with a design decision made by a senior developer. What do you do?'']),
         (''hard'',
           [''The system is down and customers are complaining. Walk me through your incident response.'',
            ''You need to choose between two architectural approaches with different trade-offs. How do you decide?'',
            ''Your team wants to adopt a new technology, but management is resistant. How do you proceed?'',
            ''You've inherited a legacy codebase with poor documentation. How do you approach modernizing it?'',
            ''A critical team member just quit before a major deadline. How do you manage the situation?''])]),
      (''general'',
        [(''easy'',
           [''What interests you most about software development?'',
            ''How do you approach problem-solving?'',
            ''What's your preferred development environment?'',
            ''How do you handle feedback on your code?'',
            ''What motivates you in your work?'']),
         (''medium'',
           [''Describe your ideal work environment.'',
            ''How do you balance technical debt with new feature development?'',
            ''What's your approach to testing?'',
            ''How do you ensure code quality in your projects?'',
            ''What's the most important skill for a developer to have?'']),
         (''hard'',
           [''How do you evaluate and choose between different technical solutions?'',
            ''What's your philosophy on software architecture?'',
            ''How do you measure the success of a software project?'',
            ''What role should developers play in product decisions?'',
            ''How do you balance innovation with stability in software development?''])])]"

definition role_specific_questions :: "(string \<times> (string \<times> string list) list) list" where
  "role_specific_questions =
     [(''software engineer'',
        [(''technical'',
           [''Explain the difference between synchronous and asynchronous programming.'',
            ''How would you design a REST API for a social media platform?'',
            ''What are the SOLID principles and why are they important?'',
            ''Explain the concept of Big O notation with examples.'',
            ''How do you ensure your code is maintainable and scalable?'']),
         (''coding'',
           [''Write a function to reverse a string without using built-in methods.'',
            ''Implement a binary search algorithm.'',
            ''How would you find the duplicate number in an array?'',
            ''Design a data structure for a LRU cache.'',
            ''Write code to detect if a linked list has a cycle.''])]),
      (''frontend developer'',
        [(''technical'',
           [''Explain the difference between var, let, and const in JavaScript.'',
            ''How does the virtual DOM work in React?'',
            ''What are CSS Grid and Flexbox? When would you use each?'',
            ''Explain event bubbling and capturing in JavaScript.'',
            ''How do you optimize web application performance?''])]),
      (''backend developer'',
        [(''technical'',
           [''Explain the difference between SQL and NoSQL databases.'',
            ''How would you design a database schema for an e-commerce platform?'',
            ''What are microservices and their advantages?'',
            ''How do you handle authentication and authorization?'',
            ''Explain caching strategies and when to use them.''])]),
      (''data scientist'',
        [(''technical'',
           [''Explain the difference between supervised and unsupervised learning.'',
            ''How would you handle missing data in a dataset?'',
            ''What is overfitting and how do you prevent it?'',
            ''Explain the bias-variance tradeoff.'',
            ''How do you evaluate the performance of a machine learning model?''])])]"

definition difficulty_map :: "(string \<times> string) list" where
  "difficulty_map = [(''beginner'', ''easy''), (''intermediate'', ''medium''), (''advanced'', ''hard'')]"

definition get_question_distribution :: "int \<Rightarrow> distribution" where
  "get_question_distribution total_count =
     (if total_count \<le> 5
      then \<lparr> d_technical = max 1 (total_count div 2),
             d_behavioral = max 1 (total_count div 3),
             d_situational = max 1 (total_count div 4),
             d_general = max 0 (total_count - (total_count div 2) - (total_count div 3)
                                - (total_count div 4)) \<rparr>
      else \<lparr> d_technical = max 2 (py_int (of_int total_count * 0.4)),
             d_behavioral = max 2 (py_int (of_int total_count * 0.3)),
             d_situational = max 1 (py_int (of_int total_count * 0.2)),
             d_general = max 1 (py_int (of_int total_count * 0.1)) \<rparr>)"

text \<open>\<open>self.question_templates[category][difficulty]\<close>\<close>

definition templates_for :: "string \<Rightarrow> string \<Rightarrow> error + string list" where
  "templates_for category difficulty =
     bind_err (lookup question_templates category) (\<lambda>by_level. lookup by_level difficulty)"

text \<open>\<open>template.format(skill=skill)\<close> on a template whose only field is \<open>{skill}\<close>.\<close>

fun format_from :: "nat \<Rightarrow> string \<Rightarrow> string \<Rightarrow> string" where
  "format_from k skill [] = []"
| "format_from (Suc k) skill (c # cs) = format_from k skill cs"
| "format_from 0 skill (c # cs) =
     (if starts_with (c # cs) ''{skill}'' then skill @ format_from 6 skill cs
      else c # format_from 0 skill cs)"

definition format_skill :: "string \<Rightarrow> string \<Rightarrow> string" where
  "format_skill template skill = format_from 0 skill template"

fun technical_loop ::
  "rng \<Rightarrow> string list \<Rightarrow> int \<Rightarrow> string \<Rightarrow> nat \<Rightarrow> string list \<Rightarrow> error + (question list \<times> rng)" where
  "technical_loop g templates cnt difficulty i [] = Inr ([], g)"
| "technical_loop g templates cnt difficulty i (skill # rest) =
     (if int i \<ge> cnt then Inr ([], g)
      else bind_err (random_choice g templates) (\<lambda>(template, g1).
           bind_err (technical_loop g1 templates cnt difficulty (Suc i) rest) (\<lambda>(questions, g2).
           Inr (\<lparr> q_question = format_skill template skill,
                   q_category = ''technical'',
                   q_difficulty = difficulty,
                   q_skill = Some skill,
                   q_role = None,
                   q_expectedAnswer =
                     Some (''Expected to demonstrate knowledge of '' @ skill
                           @ '' with practical examples.'') \<rparr> # questions, g2))))"

definition generate_technical_questions ::
  "rng \<Rightarrow> string list \<Rightarrow> int \<Rightarrow> string \<Rightarrow> error + (question list \<times> rng)" where
  "generate_technical_questions g skills cnt difficulty =
     bind_err (templates_for ''technical'' difficulty) (\<lambda>templates.
     bind_err (random_sample g skills (min (int (length skills)) cnt)) (\<lambda>(selected_skills, g1).
     technical_loop g1 templates cnt difficulty 0 selected_skills))"

text \<open>The pool of the first role key contained in the lower-cased job role.\<close>

definition role_pool :: "string \<Rightarrow> question list" where
  "role_pool job_role =
     (case find (\<lambda>(role_key, role_data). contains (lower job_role) role_key) role_specific_questions of
        None \<Rightarrow> []
      | Some (role_key, role_data) \<Rightarrow>
          concat (map (\<lambda>(category, question_list).
                    map (\<lambda>q. \<lparr> q_question = q,
                               q_category = (if category = ''technical'' then ''technical'' else category),
                               q_difficulty = ''medium'',
                               q_skill = None,
                               q_role = Some job_role,
                               q_expectedAnswer = None \<rparr>) question_list) role_data))"

definition generate_role_specific_questions ::
  "rng \<Rightarrow> string \<Rightarrow> int \<Rightarrow> error + (question list \<times> rng)" where
  "generate_role_specific_questions g job_role cnt =
     (let role_questions = role_pool job_role
      in if role_questions \<noteq> []
         then random_sample g role_questions (min (int (length role_questions)) cnt)
         else Inr ([], g))"

definition template_question :: "string \<Rightarrow> string \<Rightarrow> string \<Rightarrow> string \<Rightarrow> question" where
  "template_question category difficulty expected template =
     \<lparr> q_question = template, q_category = category, q_difficulty = difficulty,
       q_skill = None, q_role = None, q_expectedAnswer = Some expected \<rparr>"

definition generate_behavioral_questions ::
  "rng \<Rightarrow> int \<Rightarrow> string \<Rightarrow> error + (question list \<times> rng)" where
  "generate_behavioral_questions g cnt difficulty =
     bind_err (templates_for ''behavioral'' difficulty) (\<lambda>templates.
     bind_err (random_sample g templates (min (int (length templates)) cnt)) (\<lambda>(selected_templates, g1).
     Inr (map (template_question ''behavioral'' difficulty
                 ''Expected to use STAR method (Situation, Task, Action, Result) to provide specific examples.'')
            selected_templates, g1)))"

definition generate_situational_questions ::
  "rng \<Rightarrow> int \<Rightarrow> string \<Rightarrow> error + (question list \<times> rng)" where
  "generate_situational_questions g cnt difficulty =
     bind_err (templates_for ''situational'' difficulty) (\<lambda>templates.
     bind_err (random_sample g templates (min (int (length templates)) cnt)) (\<lambda>(selected_templates, g1).
     Inr (map (template_question ''situational'' difficulty
                 ''Expected to demonstrate problem-solving approach and decision-making process.'')
            selected_templates, g1)))"

definition generate_general_questions ::
  "rng \<Rightarrow> int \<Rightarrow> string \<Rightarrow> error + (question list \<times> rng)" where
  "generate_general_questions g cnt difficulty =
     bind_err (templates_for ''general'' difficulty) (\<lambda>templates.
     bind_err (random_sample g templates (min (int (length templates)) cnt)) (\<lambda>(selected_templates, g1).
     Inr (map (template_question ''general'' difficulty
                 ''Expected to show passion, communication skills, and cultural fit.'')
            selected_templates, g1)))"

text \<open>
  \<open>resume_skills\<close> is \<open>resume_data.get('skills')\<close>, \<open>None\<close> when there is no resume
  or no such key.
\<close>

definition generate ::
  "rng \<Rightarrow> string \<Rightarrow> string \<Rightarrow> string list option \<Rightarrow> int \<Rightarrow> error + (question list \<times> rng)" where
  "generate g job_role difficulty resume_skills question_count =
     (let diff_level = (case map_of difficulty_map difficulty of Some l \<Rightarrow> l | None \<Rightarrow> ''medium'');
          distribution = get_question_distribution question_count
      in bind_err (case resume_skills of
                     None \<Rightarrow> Inr ([], g)
                   | Some skills \<Rightarrow>
                       if skills \<noteq> []
                       then generate_technical_questions g skills (d_technical distribution) diff_level
                       else Inr ([], g)) (\<lambda>(tech_questions, g1).
         bind_err (generate_role_specific_questions g1 job_role
                     (d_technical distribution
                      - int (length (filter (\<lambda>q. q_category q = ''technical'') tech_questions))))
           (\<lambda>(role_questions, g2).
         bind_err (generate_behavioral_questions g2 (d_behavioral distribution) diff_level)
           (\<lambda>(behavioral_questions, g3).
         bind_err (generate_situational_questions g3 (d_situational distribution) diff_level)
           (\<lambda>(situational_questions, g4).
         bind_err (generate_general_questions g4 (d_general distribution) diff_level)
           (\<lambda>(general_questions, g5).
         (let (questions, g6) =
                random_shuffle g5 (tech_questions @ role_questions @ behavioral_questions
                                   @ situational_questions @ general_questions)
          in Inr (slice_to questions question_count, g6))))))))"

section \<open>Feedback synthesis (services/feedback\_generator.py)\<close>

definition feedback_templates :: "(string \<times> (string \<times> string list) list) list" where
  "feedback_templates =
     [(''strengths'',
        [(''high_technical'',
           [''Excellent technical depth and accuracy in your response'',
            ''Strong demonstration of technical knowledge and expertise'',
            ''Impressive understanding of technical concepts and implementation'',
            ''Great technical insight and practical application knowledge'']),
         (''good_structure'',
           [''Well-structured and organized response'',
            ''Clear logical flow in your explanation'',
            ''Excellent use of the STAR method for storytelling'',
            ''Good progression from problem to solution'']),
         (''high_confidence'',
           [''Confident and assured delivery'',
            ''Strong conviction in your responses'',
            ''Excellent communication confidence'',
            ''Clear and decisive communication style'']),
         (''good_examples'',
           [''Great use of specific examples and real-world scenarios'',
            ''Excellent concrete examples that illustrate your points'',
            ''Strong practical examples that demonstrate experience'',
            ''Good use of case studies and specific instances'']),
         (''comprehensive'',
           [''Comprehensive and thorough response'',
            ''Complete coverage of all question aspects'',
            ''Detailed and well-rounded answer'',
            ''Thorough exploration of the topic''])]),
      (''improvements'',
        [(''low_technical'',
           [''Consider adding more technical details and depth'',
            ''Include more specific technical examples and implementations'',
            ''Expand on the technical aspects of your solution'',
            ''Provide more detailed technical reasoning'']),
         (''poor_structure'',
           [''Try to organize your response with a clearer structure'',
            ''Consider using the STAR method for behavioral questions'',
            ''Improve the logical flow of your explanation'',
            ''Structure your answer with clear beginning, middle, and end'']),
         (''low_confidence'',
           [''Speak with more confidence and conviction'',
            (''Reduce hedge words like 'maybe' and 'I think'' @ [CHR 0x27]),
            ''Be more assertive in your responses'',
            ''Practice speaking with greater certainty'']),
         (''insufficient_examples'',
           [''Include more specific examples from your experience'',
            ''Add concrete scenarios to illustrate your points'',
            ''Provide real-world examples to support your answers'',
            ''Use more detailed case studies and specific instances'']),
         (''incomplete'',
           [''Provide more comprehensive coverage of the question'',
            ''Address all parts of the multi-part question'',
            ''Expand your response to be more thorough'',
            ''Include more detail to fully answer the question'']),
         (''too_brief'',
           [''Expand your response with more detail and examples'',
            ''Provide a more comprehensive answer'',
            ''Add more depth to your explanation'',
            ''Include additional context and background'']),
         (''too_verbose'',
           [''Try to be more concise while maintaining key points'',
            ''Focus on the most important aspects of your answer'',
            ''Streamline your response for better clarity'',
            ''Practice delivering more focused responses''])]),
      (''suggestions'',
        [(''technical_improvement'',
           [''Practice explaining technical concepts in simple terms'',
            ''Prepare specific examples of your technical work'',
            ''Study common technical interview questions for your role'',
            ''Practice whiteboarding and code explanation'']),
         (''communication_improvement'',
           [''Practice the STAR method for behavioral questions'',
            ''Work on speaking with more confidence and less hesitation'',
            ''Practice structuring your responses clearly'',
            ''Record yourself answering questions to improve delivery'']),
         (''preparation_tips'',
           [''Research the company and role more thoroughly'',
            ''Prepare more specific examples from your experience'',
            ''Practice common interview questions for your field'',
            ''Review your resume and be ready to discuss each point''])])]"

text \<open>\<open>self.feedback_templates[kind][bucket]\<close>\<close>

definition bucket_pool :: "string \<Rightarrow> string \<Rightarrow> error + string list" where
  "bucket_pool kind bucket =
     bind_err (lookup feedback_templates kind) (\<lambda>buckets. lookup buckets bucket)"

text \<open>\<open>random.choice(self.feedback_templates[kind][bucket])\<close>\<close>

definition choose_template :: "rng \<Rightarrow> string \<Rightarrow> string \<Rightarrow> error + (string \<times> rng)" where
  "choose_template g kind bucket =
     bind_err (bucket_pool kind bucket) (\<lambda>pool. random_choice g pool)"

text \<open>
  A run of \<open>if cond: xs.append(random.choice(self.feedback_templates[kind][bucket]))\<close>
  statements, in the order of the list.
\<close>

fun append_choices ::
  "rng \<Rightarrow> string \<Rightarrow> (bool \<times> string) list \<Rightarrow> string list \<Rightarrow> error + (string list \<times> rng)" where
  "append_choices g kind [] xs = Inr (xs, g)"
| "append_choices g kind ((cond, bucket) # rest) xs =
     (if cond
      then bind_err (choose_template g kind bucket) (\<lambda>(s, g1). append_choices g1 kind rest (xs @ [s]))
      else append_choices g kind rest xs)"

text \<open>\<open>analysis['content_analysis'].get('has_examples', False)\<close>\<close>

fun get_has_examples :: "analysis \<Rightarrow> bool" where
  "get_has_examples (Analysis subs sc) = ca_has_examples (content_analysis subs)"
| "get_has_examples (Insufficient ia) = False"

text \<open>\<open>analysis['content_analysis'].get('word_count', 0)\<close>\<close>

fun get_word_count :: "analysis \<Rightarrow> int" where
  "get_word_count (Analysis subs sc) = ca_word_count (content_analysis subs)"
| "get_word_count (Insufficient ia) = ia_word_count ia"

text \<open>\<open>analysis['structure_analysis']['star_score']\<close>\<close>

fun get_star_score :: "analysis \<Rightarrow> error + int" where
  "get_star_score (Analysis subs sc) = Inr (sa_star_score (structure_analysis subs))"
| "get_star_score (Insufficient ia) = Inl KeyError"

text \<open>\<open>analysis['confidence_analysis']['hedge_word_count']\<close>\<close>

fun get_hedge_word_count :: "analysis \<Rightarrow> error + int" where
  "get_hedge_word_count (Analysis subs sc) = Inr (cf_hedge_word_count (confidence_analysis subs))"
| "get_hedge_word_count (Insufficient ia) = Inl KeyError"

definition strength_checks :: "analysis \<Rightarrow> (bool \<times> string) list" where
  "strength_checks analysis =
     [(technical_score (scores_of analysis) \<ge> 75, ''high_technical''),
      (structure_score (scores_of analysis) \<ge> 70, ''good_structure''),
      (confidence_score (scores_of analysis) \<ge> 75, ''high_confidence''),
      (get_has_examples analysis, ''good_examples''),
      (completeness_score (scores_of analysis) \<ge> 80, ''comprehensive'')]"

definition identify_strengths :: "rng \<Rightarrow> analysis \<Rightarrow> error + (string list \<times> rng)" where
  "identify_strengths g analysis =
     bind_err (append_choices g ''strengths'' (strength_checks analysis) []) (\<lambda>(strengths, g1).
     (let strengths' =
            (if strengths = []
             then (if overall_score (scores_of analysis) \<ge> 50
                   then [''Good effort in addressing the question'']
                   else [''Thank you for providing a response''])
             else strengths)
      in Inr (take 3 strengths', g1)))"

definition improvement_checks :: "analysis \<Rightarrow> (bool \<times> string) list" where
  "improvement_checks analysis =
     [(technical_score (scores_of analysis) < 50, ''low_technical''),
      (structure_score (scores_of analysis) < 50, ''poor_structure''),
      (confidence_score (scores_of analysis) < 60, ''low_confidence''),
      (\<not> get_has_examples analysis, ''insufficient_examples''),
      (get_word_count analysis < 50, ''too_brief''),
      (\<not> get_word_count analysis < 50 \<and> get_word_count analysis > 400, ''too_verbose''),
      (completeness_score (scores_of analysis) < 60, ''incomplete'')]"

definition identify_improvements :: "rng \<Rightarrow> analysis \<Rightarrow> error + (string list \<times> rng)" where
  "identify_improvements g analysis =
     bind_err (append_choices g ''improvements'' (improvement_checks analysis) []) (\<lambda>(improvements, g1).
     Inr (take 3 improvements, g1))"

definition suggestion_checks :: "analysis \<Rightarrow> (bool \<times> string) list" where
  "suggestion_checks analysis =
     [(technical_score (scores_of analysis) < 70, ''technical_improvement''),
      (communication_score (scores_of analysis) < 70 \<or> structure_score (scores_of analysis) < 60,
       ''communication_improvement''),
      (overall_score (scores_of analysis) < 70, ''preparation_tips'')]"

definition generate_suggestions :: "rng \<Rightarrow> analysis \<Rightarrow> error + (string list \<times> rng)" where
  "generate_suggestions g analysis =
     bind_err (append_choices g ''suggestions'' (suggestion_checks analysis) []) (\<lambda>(suggestions1, g1).
     bind_err (get_star_score analysis) (\<lambda>star_score.
     (let suggestions2 =
            (if star_score < 50
             then suggestions1 @ [''Practice using the STAR method (Situation, Task, Action, Result) for behavioral questions'']
             else suggestions1)
      in bind_err (get_hedge_word_count analysis) (\<lambda>hedge_word_count.
         (let suggestions3 =
                (if hedge_word_count > 3
                 then suggestions2 @ [''Reduce filler words and hedge phrases to sound more confident'']
                 else suggestions2);
              suggestions4 =
                (if suggestions3 = []
                 then [''Continue practicing interview questions to build confidence and improve responses'']
                 else suggestions3)
          in Inr (take 4 suggestions4, g1))))))"

record detailed_scores =
  ds_content :: int
  ds_technical :: int
  ds_structure :: int
  ds_completeness :: int

record feedback =
  fb_score :: int
  fb_strengths :: "string list"
  fb_improvements :: "string list"
  fb_suggestions :: "string list"
  fb_technicalAccuracy :: int
  fb_communication :: int
  fb_confidence :: int
  fb_detailed_scores :: detailed_scores

definition generate_feedback :: "rng \<Rightarrow> analysis \<Rightarrow> error + (feedback \<times> rng)" where
  "generate_feedback g analysis =
     (let sc = scores_of analysis
      in bind_err (identify_strengths g analysis) (\<lambda>(strengths, g1).
         bind_err (identify_improvements g1 analysis) (\<lambda>(improvements, g2).
         bind_err (generate_suggestions g2 analysis) (\<lambda>(suggestions, g3).
         Inr (\<lparr> fb_score = py_int (overall_score sc),
                 fb_strengths = strengths,
                 fb_improvements = improvements,
                 fb_suggestions = suggestions,
                 fb_technicalAccuracy = py_int (min 100 (technical_score sc)),
                 fb_communication = py_int (min 100 (communication_score sc)),
                 fb_confidence = py_int (min 100 (confidence_score sc)),
                 fb_detailed_scores =
                   \<lparr> ds_content = py_int (content_score sc),
                     ds_technical = py_int (technical_score sc),
                     ds_structure = py_int (structure_score sc),
                     ds_completeness = py_int (completeness_score sc) \<rparr> \<rparr>, g3)))))"

section \<open>Example inputs\<close>

definition no_nlp :: nlp_results where
  "no_nlp = \<lparr> textstat_scores = None, spacy_result = None, vader_compound = None \<rparr>"





definition subs_plain :: sub_analyses where
  "subs_plain =
     \<lparr> content_analysis =
         \<lparr> ca_word_count = 120, ca_sentence_count = 6, ca_relevance_score = 40,
           ca_depth_score = 20, ca_has_examples = True \<rparr>,
       linguistic_analysis =
         \<lparr> la_readability_score = 30, la_grade_level = 12, la_avg_sentence_length = 20,
           la_vocabulary_diversity = 60,
           la_word_types = \<lparr> nouns = 9, verbs = 14, adjectives = 3 \<rparr> \<rparr>,
       technical_analysis =
         \<lparr> ta_technical_categories =
             [(''architecture'', 40), (''performance'', 20), (''security'', 0), (''testing'', 20),
              (''collaboration'', 20)],
           ta_role_technical_score = 30, ta_has_code_example = True,
           ta_overall_technical_score = 20 \<rparr>,
       structure_analysis =
         \<lparr> sa_star_score = 0, sa_star_components = [], sa_has_logical_flow = True,
           sa_has_introduction = True, sa_has_conclusion = False, sa_structure_score = 40 \<rparr>,
       confidence_analysis =
         \<lparr> cf_confidence_score = 50, cf_high_confidence_indicators = 0,
           cf_low_confidence_indicators = 0, cf_hedge_word_count = 0, cf_sentiment_score = 50 \<rparr>,
       completeness_analysis =
         \<lparr> cp_word_count = 120, cp_length_score = 100, cp_addresses_all_parts = True,
           cp_completeness_score = 100 \<rparr> \<rparr>"

text \<open>The same five sub-analyses with a more readable text, and with another grade level.\<close>

definition subs_readable :: sub_analyses where
  "subs_readable =
     subs_plain \<lparr> linguistic_analysis :=
       (linguistic_analysis subs_plain) \<lparr> la_readability_score := 90 \<rparr> \<rparr>"

definition subs_regraded :: sub_analyses where
  "subs_regraded =
     subs_plain \<lparr> linguistic_analysis :=
       (linguistic_analysis subs_plain) \<lparr> la_grade_level := 3 \<rparr> \<rparr>"

text \<open>The number of questions of a category in a batch.\<close>

definition category_count :: "string \<Rightarrow> question list \<Rightarrow> nat" where
  "category_count c qs = length (filter (\<lambda>q. q_category q = c) qs)"

section \<open>The threshold table of the feedback synthesizer\<close>

text \<open>The improvement buckets in the order in which the source checks them.\<close>

definition checked_improvement_order :: "string list" where
  "checked_improvement_order =
     [''low_technical'', ''poor_structure'', ''low_confidence'', ''insufficient_examples'',
      ''too_brief'', ''too_verbose'', ''incomplete'']"

text \<open>The order in which the specification lists them.\<close>

definition listed_improvement_order :: "string list" where
  "listed_improvement_order =
     [''low_technical'', ''poor_structure'', ''low_confidence'', ''insufficient_examples'',
      ''incomplete'', ''too_brief'', ''too_verbose'']"

text \<open>When an improvement bucket fires, by the threshold table.\<close>

definition improvement_fires :: "analysis \<Rightarrow> string \<Rightarrow> bool" where
  "improvement_fires a bucket =
     (if bucket = ''low_technical'' then technical_score (scores_of a) < 50
      else if bucket = ''poor_structure'' then structure_score (scores_of a) < 50
      else if bucket = ''low_confidence'' then confidence_score (scores_of a) < 60
      else if bucket = ''insufficient_examples'' then \<not> get_has_examples a
      else if bucket = ''incomplete'' then completeness_score (scores_of a) < 60
      else if bucket = ''too_brief'' then get_word_count a < 50
      else if bucket = ''too_verbose'' then get_word_count a > 400
      else False)"

definition strength_order :: "string list" where
  "strength_order =
     [''high_technical'', ''good_structure'', ''high_confidence'', ''good_examples'',
      ''comprehensive'']"

definition strength_fires :: "analysis \<Rightarrow> string \<Rightarrow> bool" where
  "strength_fires a bucket =
     (if bucket = ''high_technical'' then technical_score (scores_of a) \<ge> 75
      else if bucket = ''good_structure'' then structure_score (scores_of a) \<ge> 70
      else if bucket = ''high_confidence'' then confidence_score (scores_of a) \<ge> 75
      else if bucket = ''good_examples'' then get_has_examples a
      else if bucket = ''comprehensive'' then completeness_score (scores_of a) \<ge> 80
      else False)"

text \<open>The string \<open>s\<close> is one of the templates of the bucket.\<close>

definition from_bucket :: "string \<Rightarrow> string \<Rightarrow> string \<Rightarrow> bool" where
  "from_bucket kind s bucket =
     (case bucket_pool kind bucket of Inl e \<Rightarrow> False | Inr pool \<Rightarrow> s \<in> set pool)"

text \<open>
  A confident, keyword-rich technical answer of 16 words: its technical and confidence
  scores are good, it has no example, it is brief and it is incomplete.
\<close>

definition keyword_answer :: string where
  "keyword_answer =
     ''confident design architecture pattern structure framework optimize performance speed efficient scalable security authentication authorization encryption vulnerability''"

definition keyword_analysis :: analysis where
  "keyword_analysis =
     analyze no_nlp ''How do you design a secure system?'' keyword_answer ''technical''
       ''software engineer''"

section \<open>Properties of the answer analyzer\<close>

subsection \<open>String helpers\<close>




subsection \<open>Insufficient answers\<close>



subsection \<open>Structure score of a complete STAR answer\<close>



subsection \<open>Score aggregation\<close>

text \<open>
  Claim C6. For every set of sub-analyses the aggregated \<open>overall_score\<close> is the
  weighted sum \<open>content * 0.25 + technical * 0.25 + structure * 0.20 + confidence * 0.15 +
  completeness * 0.15\<close> clamped to \<open>[0, 100]\<close>, the content sub-score is the average of
  \<open>relevance_score\<close> and \<open>depth_score\<close>, and \<open>communication_score\<close> is the average of
  \<open>readability_score\<close> and \<open>confidence_score\<close>.
\<close>

theorem calculate_scores_formula:
  "overall_score (calculate_scores a)
     = min 100 (max 0 (content_score (calculate_scores a) * 0.25
                       + technical_score (calculate_scores a) * 0.25
                       + structure_score (calculate_scores a) * 0.20
                       + confidence_score (calculate_scores a) * 0.15
                       + completeness_score (calculate_scores a) * 0.15))
   \<and> content_score (calculate_scores a)
       = (ca_relevance_score (content_analysis a) + ca_depth_score (content_analysis a)) / 2
   \<and> technical_score (calculate_scores a) = ta_overall_technical_score (technical_analysis a)
   \<and> structure_score (calculate_scores a) = sa_structure_score (structure_analysis a)
   \<and> confidence_score (calculate_scores a) = cf_confidence_score (confidence_analysis a)
   \<and> completeness_score (calculate_scores a) = cp_completeness_score (completeness_analysis a)
   \<and> communication_score (calculate_scores a)
       = (la_readability_score (linguistic_analysis a) + cf_confidence_score (confidence_analysis a)) / 2"
  by (simp add: calculate_scores_def Let_def)

subsection \<open>The word maybe in the confidence score\<close>

lemma count_in_Cons: "count_in (p # ps) s = (if contains s p then 1 else 0) + count_in ps s"
  by (simp add: count_in_def)

lemma count_in_append: "count_in (ps @ qs) s = count_in ps s + count_in qs s"
  by (simp add: count_in_def)

lemma low_without_maybe: "remove1 ''maybe'' confidence_keywords_low = tl confidence_keywords_low"
  by (simp add: confidence_keywords_low_def)

lemma hedge_without_maybe: "remove1 ''maybe'' hedge_words = butlast hedge_words"
  by (simp add: hedge_words_def)

lemma analyze_confidence_fields:
  "cf_high_confidence_indicators (analyze_confidence nlp answer)
     = int (count_in confidence_keywords_high (lower answer))"
  "cf_low_confidence_indicators (analyze_confidence nlp answer)
     = int (count_in confidence_keywords_low (lower answer))"
  "cf_hedge_word_count (analyze_confidence nlp answer) = int (count_in hedge_words (lower answer))"
  "cf_confidence_score (analyze_confidence nlp answer)
     = of_int (max 0 (min 100 (confidence_formula
         (int (count_in confidence_keywords_high (lower answer)))
         (int (count_in confidence_keywords_low (lower answer)))
         (int (count_in hedge_words (lower answer))))))"
  by (simp_all add: analyze_confidence_def Let_def)

lemma low_count_with_maybe:
  assumes "contains s ''maybe''"
  shows "count_in confidence_keywords_low s
         = Suc (count_in (remove1 ''maybe'' confidence_keywords_low) s)"
  using assms unfolding low_without_maybe
  by (simp add: confidence_keywords_low_def count_in_Cons)

lemma hedge_count_with_maybe:
  assumes "contains s ''maybe''"
  shows "count_in hedge_words s = Suc (count_in (remove1 ''maybe'' hedge_words) s)"
proof -
  have "hedge_words = butlast hedge_words @ [''maybe'']"
    by (simp add: hedge_words_def)
  then have "count_in hedge_words s = count_in (butlast hedge_words) s + count_in [''maybe''] s"
    by (metis count_in_append)
  then show ?thesis
    using assms unfolding hedge_without_maybe by (simp add: count_in_Cons count_in_def)
qed

text \<open>
  Claim C10. In an answer that contains \<open>maybe\<close> (in any letter case) the word is counted
  once among the low-confidence keywords and once among the hedge phrases, so the value
  that is clamped into \<open>confidence_score\<close> is 15 lower (10 + 5) than the same formula
  gives on the two lists without \<open>maybe\<close>.
\<close>

theorem maybe_counted_twice:
  assumes "contains (lower answer) ''maybe''"
  shows "cf_low_confidence_indicators (analyze_confidence nlp answer)
           = int (count_in (remove1 ''maybe'' confidence_keywords_low) (lower answer)) + 1
       \<and> cf_hedge_word_count (analyze_confidence nlp answer)
           = int (count_in (remove1 ''maybe'' hedge_words) (lower answer)) + 1
       \<and> confidence_formula (cf_high_confidence_indicators (analyze_confidence nlp answer))
             (cf_low_confidence_indicators (analyze_confidence nlp answer))
             (cf_hedge_word_count (analyze_confidence nlp answer))
           = confidence_formula (cf_high_confidence_indicators (analyze_confidence nlp answer))
               (int (count_in (remove1 ''maybe'' confidence_keywords_low) (lower answer)))
               (int (count_in (remove1 ''maybe'' hedge_words) (lower answer))) - 15
       \<and> cf_confidence_score (analyze_confidence nlp answer)
           = of_int (max 0 (min 100
               (confidence_formula (cf_high_confidence_indicators (analyze_confidence nlp answer))
                  (cf_low_confidence_indicators (analyze_confidence nlp answer))
                  (cf_hedge_word_count (analyze_confidence nlp answer)))))"
proof -
  note low = low_count_with_maybe [OF assms]
  note hedge = hedge_count_with_maybe [OF assms]
  have c1: "cf_low_confidence_indicators (analyze_confidence nlp answer)
           = int (count_in (remove1 ''maybe'' confidence_keywords_low) (lower answer)) + 1"
    unfolding analyze_confidence_fields low by simp
  have c2: "cf_hedge_word_count (analyze_confidence nlp answer)
           = int (count_in (remove1 ''maybe'' hedge_words) (lower answer)) + 1"
    unfolding analyze_confidence_fields hedge by simp
  have c3: "confidence_formula (cf_high_confidence_indicators (analyze_confidence nlp answer))
             (cf_low_confidence_indicators (analyze_confidence nlp answer))
             (cf_hedge_word_count (analyze_confidence nlp answer))
           = confidence_formula (cf_high_confidence_indicators (analyze_confidence nlp answer))
               (int (count_in (remove1 ''maybe'' confidence_keywords_low) (lower answer)))
               (int (count_in (remove1 ''maybe'' hedge_words) (lower answer))) - 15"
    unfolding c1 c2 by (simp add: confidence_formula_def)
  have c4: "cf_confidence_score (analyze_confidence nlp answer)
           = of_int (max 0 (min 100
               (confidence_formula (cf_high_confidence_indicators (analyze_confidence nlp answer))
                  (cf_low_confidence_indicators (analyze_confidence nlp answer))
                  (cf_hedge_word_count (analyze_confidence nlp answer)))))"
    unfolding analyze_confidence_fields by simp
  from c1 c2 c3 c4 show ?thesis by blast
qed

theorem maybe_counted_twice_witness:
  "contains (lower ''Maybe we could cache it'') ''maybe''
   \<and> cf_low_confidence_indicators (analyze_confidence no_nlp ''Maybe we could cache it'') = 1
   \<and> cf_hedge_word_count (analyze_confidence no_nlp ''Maybe we could cache it'') = 1"
proof -
  have h: "contains (lower ''Maybe we could cache it'') ''maybe''" by code_simp
  have l: "count_in (remove1 ''maybe'' confidence_keywords_low) (lower ''Maybe we could cache it'') = 0"
    by code_simp
  have g: "count_in (remove1 ''maybe'' hedge_words) (lower ''Maybe we could cache it'') = 0"
    by code_simp
  from maybe_counted_twice [OF h, of no_nlp]
  have "cf_low_confidence_indicators (analyze_confidence no_nlp ''Maybe we could cache it'') = 1"
    and "cf_hedge_word_count (analyze_confidence no_nlp ''Maybe we could cache it'') = 1"
    unfolding l g by simp_all
  with h show ?thesis by blast
qed

subsection \<open>Determinism of the aggregation\<close>

text \<open>
  The aggregator reads six sub-analyses, not five: \<open>communication_score\<close> uses the
  \<open>readability_score\<close> of the linguistic analysis. Two inputs that agree on the content,
  technical, structure, confidence and completeness analyses can therefore produce
  different ScoreSets.
\<close>

theorem aggregation_five_inputs_counterexample:
  "content_analysis subs_plain = content_analysis subs_readable
   \<and> technical_analysis subs_plain = technical_analysis subs_readable
   \<and> structure_analysis subs_plain = structure_analysis subs_readable
   \<and> confidence_analysis subs_plain = confidence_analysis subs_readable
   \<and> completeness_analysis subs_plain = completeness_analysis subs_readable
   \<and> calculate_scores subs_plain \<noteq> calculate_scores subs_readable"
proof -
  have p: "communication_score (calculate_scores subs_plain) = 40"
    by (simp add: calculate_scores_def subs_plain_def Let_def)
  have r: "communication_score (calculate_scores subs_readable) = 70"
    by (simp add: calculate_scores_def subs_readable_def subs_plain_def Let_def)
  have "calculate_scores subs_plain \<noteq> calculate_scores subs_readable"
  proof
    assume "calculate_scores subs_plain = calculate_scores subs_readable"
    then have "communication_score (calculate_scores subs_plain)
               = communication_score (calculate_scores subs_readable)" by simp
    with p r show False by simp
  qed
  then show ?thesis by (simp add: subs_readable_def)
qed

text \<open>
  Claim C7 (amended). Aggregation is a function of its input alone: two inputs with equal
  content, technical, structure, confidence and completeness analyses get the same
  \<open>overall_score\<close> and the same five sub-scores, and two inputs that moreover have the
  same \<open>readability_score\<close> get identical ScoreSets.
\<close>

theorem calculate_scores_deterministic:
  assumes "content_analysis a = content_analysis b"
    and "technical_analysis a = technical_analysis b"
    and "structure_analysis a = structure_analysis b"
    and "confidence_analysis a = confidence_analysis b"
    and "completeness_analysis a = completeness_analysis b"
  shows "overall_score (calculate_scores a) = overall_score (calculate_scores b)
       \<and> content_score (calculate_scores a) = content_score (calculate_scores b)
       \<and> technical_score (calculate_scores a) = technical_score (calculate_scores b)
       \<and> structure_score (calculate_scores a) = structure_score (calculate_scores b)
       \<and> confidence_score (calculate_scores a) = confidence_score (calculate_scores b)
       \<and> completeness_score (calculate_scores a) = completeness_score (calculate_scores b)
       \<and> (la_readability_score (linguistic_analysis a) = la_readability_score (linguistic_analysis b)
            \<longrightarrow> calculate_scores a = calculate_scores b)"
  unfolding calculate_scores_def Let_def assms by simp

theorem calculate_scores_deterministic_witness:
  "la_readability_score (linguistic_analysis subs_plain)
     = la_readability_score (linguistic_analysis subs_regraded)
   \<and> subs_plain \<noteq> subs_regraded
   \<and> calculate_scores subs_plain = calculate_scores subs_regraded"
proof -
  have r: "la_readability_score (linguistic_analysis subs_plain)
           = la_readability_score (linguistic_analysis subs_regraded)"
    by (simp add: subs_regraded_def)
  have d: "subs_plain \<noteq> subs_regraded"
  proof
    assume "subs_plain = subs_regraded"
    then have "la_grade_level (linguistic_analysis subs_plain)
               = la_grade_level (linguistic_analysis subs_regraded)" by simp
    then show False by (simp add: subs_regraded_def subs_plain_def)
  qed
  have "content_analysis subs_plain = content_analysis subs_regraded"
    "technical_analysis subs_plain = technical_analysis subs_regraded"
    "structure_analysis subs_plain = structure_analysis subs_regraded"
    "confidence_analysis subs_plain = confidence_analysis subs_regraded"
    "completeness_analysis subs_plain = completeness_analysis subs_regraded"
    by (simp_all add: subs_regraded_def)
  from calculate_scores_deterministic [OF this] r
  have "calculate_scores subs_plain = calculate_scores subs_regraded"
    by blast
  with r d show ?thesis by blast
qed


subsection \<open>Completeness at the band minimum\<close>






subsection \<open>Ranges of the scores\<close>














section \<open>Properties of the question generator\<close>

subsection \<open>Sampling without replacement\<close>

lemma bind_err_Inr [simp]: "bind_err (Inr x) f = f x"
  by (simp add: bind_err_def)

lemma bind_err_Inl [simp]: "bind_err (Inl e) f = Inl e"
  by (simp add: bind_err_def)

lemma randbelow_less: "0 < n \<Longrightarrow> fst (randbelow g n) < n"
  by (cases g) simp_all

lemma mset_remove_nth:
  assumes "j < length xs"
  shows "add_mset (xs ! j) (mset (take j xs @ drop (Suc j) xs)) = mset xs"
proof -
  have "xs = take j xs @ xs ! j # drop (Suc j) xs"
    using assms by (rule id_take_nth_drop)
  then have "mset xs = mset (take j xs @ xs ! j # drop (Suc j) xs)" by simp
  then show ?thesis by simp
qed

lemma sample_from_length:
  "k \<le> length pool \<Longrightarrow> length (fst (sample_from g pool k)) = k"
proof (induction g pool k rule: sample_from.induct)
  case (3 g x xs k)
  obtain j g1 where jg: "randbelow g (Suc (length xs)) = (j, g1)" by (cases "randbelow g (Suc (length xs))")
  have j: "j < Suc (length xs)" using randbelow_less [of "Suc (length xs)" g] jg by simp
  obtain rest g2 where r: "sample_from g1 (take j (x # xs) @ drop (Suc j) (x # xs)) k = (rest, g2)"
    by (cases "sample_from g1 (take j (x # xs) @ drop (Suc j) (x # xs)) k")
  have "k \<le> length (take j (x # xs) @ drop (Suc j) (x # xs))" using "3.prems" j by auto
  from "3.IH" [OF jg [symmetric] refl this] r have "length rest = k" by simp
  with jg r show ?case by simp
qed simp_all

lemma sample_from_mset:
  "k \<le> length pool \<Longrightarrow> mset (fst (sample_from g pool k)) \<subseteq># mset pool"
proof (induction g pool k rule: sample_from.induct)
  case (3 g x xs k)
  obtain j g1 where jg: "randbelow g (Suc (length xs)) = (j, g1)" by (cases "randbelow g (Suc (length xs))")
  have j: "j < length (x # xs)" using randbelow_less [of "Suc (length xs)" g] jg by simp
  obtain rest g2 where r: "sample_from g1 (take j (x # xs) @ drop (Suc j) (x # xs)) k = (rest, g2)"
    by (cases "sample_from g1 (take j (x # xs) @ drop (Suc j) (x # xs)) k")
  have "k \<le> length (take j (x # xs) @ drop (Suc j) (x # xs))" using "3.prems" j by auto
  from "3.IH" [OF jg [symmetric] refl this] r
  have "mset rest \<subseteq># mset (take j (x # xs) @ drop (Suc j) (x # xs))" by simp
  then have "add_mset ((x # xs) ! j) (mset rest)
             \<subseteq># add_mset ((x # xs) ! j) (mset (take j (x # xs) @ drop (Suc j) (x # xs)))"
    by simp
  then have "add_mset ((x # xs) ! j) (mset rest) \<subseteq># mset (x # xs)"
    unfolding mset_remove_nth [OF j] .
  with jg r show ?case by simp
qed simp_all

lemma submset_distinct:
  assumes "mset xs \<subseteq># mset ys" "distinct ys"
  shows "distinct xs"
proof -
  have le1: "count (mset xs) a \<le> 1" for a
  proof -
    have "count (mset xs) a \<le> count (mset ys) a" using assms(1) by (rule mset_subset_eq_count)
    also have "\<dots> \<le> 1" using assms(2) by (simp add: distinct_count_atmost_1)
    finally show ?thesis .
  qed
  have "count (mset xs) a = (if a \<in> set xs then 1 else 0)" for a
  proof (cases "a \<in> set xs")
    case True
    then have "0 < count (mset xs) a" by simp
    with le1 [of a] have "count (mset xs) a = 1" by linarith
    with True show ?thesis by simp
  next
    case False
    then show ?thesis by (simp add: count_eq_zero_iff)
  qed
  then show ?thesis by (simp add: distinct_count_atmost_1)
qed


lemma random_sample_clamped:
  assumes "0 \<le> cnt"
  shows "\<exists>sel g'. random_sample g pool (min (int (length pool)) cnt) = Inr (sel, g')
           \<and> int (length sel) = min (int (length pool)) cnt
           \<and> mset sel \<subseteq># mset pool"
proof -
  define k where "k = nat (min (int (length pool)) cnt)"
  have k: "int k = min (int (length pool)) cnt" "k \<le> length pool"
    using assms by (auto simp: k_def)
  obtain sel g' where s: "sample_from g pool k = (sel, g')" by (cases "sample_from g pool k")
  have "random_sample g pool (min (int (length pool)) cnt) = Inr (sel, g')"
    using assms s by (simp add: random_sample_def k_def)
  moreover have "int (length sel) = min (int (length pool)) cnt"
    using sample_from_length [OF k(2), of g] s k(1) by simp
  moreover have "mset sel \<subseteq># mset pool"
    using sample_from_mset [OF k(2), of g] s by simp
  ultimately show ?thesis by blast
qed


text \<open>
  The model of \<open>random.sample\<close> leaves no outcome out: every selection that takes each
  item at most as often as the pool holds it is drawn by some sequence of random numbers.
\<close>

lemma sample_from_complete:
  "mset sel \<subseteq># mset pool \<Longrightarrow> \<exists>g. fst (sample_from g pool (length sel)) = sel"
proof (induction sel arbitrary: pool)
  case Nil
  then show ?case by simp
next
  case (Cons x rest)
  then have "x \<in> set pool" by (metis mset_subset_eq_insertD set_mset_mset mset.simps(2))
  then obtain j where j: "j < length pool" "pool ! j = x" by (auto simp: in_set_conv_nth)
  define pool' where "pool' = take j pool @ drop (Suc j) pool"
  have "add_mset x (mset pool') = mset pool"
    using mset_remove_nth [OF j(1)] j(2) by (simp add: pool'_def)
  with Cons.prems have "mset rest \<subseteq># mset pool'"
    by (metis mset.simps(2) mset_subset_eq_add_mset_cancel)
  from Cons.IH [OF this] obtain g' where g': "fst (sample_from g' pool' (length rest)) = rest"
    by blast
  obtain y ys where p: "pool = y # ys" using j(1) by (cases pool) auto
  have "fst (sample_from (j # g') pool (length (x # rest))) = x # rest"
    using j g' unfolding p pool'_def
    by (simp add: case_prod_unfold Let_def)
  then show ?case by blast
qed

subsection \<open>The sampling functions of the generator\<close>

lemma templates_known:
  "c \<in> {''technical'', ''behavioral'', ''situational'', ''general''}
   \<Longrightarrow> d \<in> {''easy'', ''medium'', ''hard''}
   \<Longrightarrow> \<exists>ts. templates_for c d = Inr ts \<and> length ts = 5 \<and> distinct ts"
proof -
  have "list_all (\<lambda>c. list_all (\<lambda>d. case templates_for c d of
                                        Inl e \<Rightarrow> False
                                      | Inr ts \<Rightarrow> length ts = 5 \<and> distinct ts)
                          [''easy'', ''medium'', ''hard''])
          [''technical'', ''behavioral'', ''situational'', ''general'']"
    by code_simp
  then show "c \<in> {''technical'', ''behavioral'', ''situational'', ''general''}
   \<Longrightarrow> d \<in> {''easy'', ''medium'', ''hard''}
   \<Longrightarrow> \<exists>ts. templates_for c d = Inr ts \<and> length ts = 5 \<and> distinct ts"
    by (auto split: sum.splits)
qed

lemma technical_loop_props:
  assumes "templates \<noteq> []"
  shows "\<exists>qs g'. technical_loop g templates cnt d i skills = Inr (qs, g')
           \<and> int (length qs) = min (int (length skills)) (max 0 (cnt - int i))
           \<and> (\<forall>q\<in>set qs. q_category q = ''technical'')"
proof (induction skills arbitrary: g i)
  case Nil
  then show ?case by simp
next
  case (Cons skill rest)
  show ?case
  proof (cases "int i \<ge> cnt")
    case True
    then show ?thesis by simp
  next
    case False
    obtain template g1 where c: "random_choice g templates = Inr (template, g1)"
      using assms by (cases "randbelow g (length templates)") (simp add: random_choice_def)
    from Cons.IH [of g1 "Suc i"] obtain qs g2 where
      r: "technical_loop g1 templates cnt d (Suc i) rest = Inr (qs, g2)"
      and l: "int (length qs) = min (int (length rest)) (max 0 (cnt - int (Suc i)))"
      and t: "\<forall>q\<in>set qs. q_category q = ''technical''" by blast
    from False c r l t show ?thesis by simp
  qed
qed

lemma role_pool_distinct: "distinct (role_pool job_role)"
proof -
  have all: "list_all (\<lambda>(role_key, role_data). distinct (concat (map snd role_data)))
               role_specific_questions"
    by code_simp
  show ?thesis
  proof (cases "find (\<lambda>(role_key, role_data). contains (lower job_role) role_key) role_specific_questions")
    case None
    then show ?thesis by (simp add: role_pool_def)
  next
    case (Some entry)
    obtain role_key role_data where e: "entry = (role_key, role_data)" by (cases entry)
    from Some have "entry \<in> set role_specific_questions"
      by (metis find_Some_iff nth_mem)
    with all e have d: "distinct (concat (map snd role_data))"
      by (auto simp: list_all_iff)
    have "map q_question (role_pool job_role) = concat (map snd role_data)"
      using Some e by (simp add: role_pool_def map_concat o_def case_prod_unfold)
    with d have "distinct (map q_question (role_pool job_role))" by simp
    then show ?thesis by (simp add: distinct_map)
  qed
qed

lemma role_specific_clamped:
  assumes "0 \<le> cnt"
  shows "\<exists>qs g'. generate_role_specific_questions g job_role cnt = Inr (qs, g')
           \<and> int (length qs) = min (int (length (role_pool job_role))) cnt
           \<and> mset qs \<subseteq># mset (role_pool job_role)
           \<and> distinct qs"
proof (cases "role_pool job_role = []")
  case True
  with assms show ?thesis by (simp add: generate_role_specific_questions_def)
next
  case False
  from random_sample_clamped [OF assms, of g "role_pool job_role"] obtain sel g' where
    s: "random_sample g (role_pool job_role) (min (int (length (role_pool job_role))) cnt) = Inr (sel, g')"
    and l: "int (length sel) = min (int (length (role_pool job_role))) cnt"
    and m: "mset sel \<subseteq># mset (role_pool job_role)" by blast
  from m role_pool_distinct have "distinct sel" by (rule submset_distinct)
  with False s l m show ?thesis by (simp add: generate_role_specific_questions_def)
qed

lemma template_question_inj: "inj (template_question c d e)"
  by (rule injI) (simp add: template_question_def)

lemma sampled_templates:
  assumes "templates_for c d = Inr ts" "0 \<le> cnt"
  shows "\<exists>qs g'. bind_err (templates_for c d) (\<lambda>templates.
                   bind_err (random_sample g templates (min (int (length templates)) cnt))
                     (\<lambda>(selected_templates, g1).
                   Inr (map (template_question c' d e) selected_templates, g1))) = Inr (qs, g')
           \<and> int (length qs) = min (int (length ts)) cnt
           \<and> (\<forall>q\<in>set qs. q_category q = c')
           \<and> (distinct ts \<longrightarrow> distinct qs)"
proof -
  from random_sample_clamped [OF assms(2), of g ts] obtain sel g' where
    s: "random_sample g ts (min (int (length ts)) cnt) = Inr (sel, g')"
    and l: "int (length sel) = min (int (length ts)) cnt"
    and m: "mset sel \<subseteq># mset ts" by blast
  have "distinct (map (template_question c' d e) sel)" if "distinct ts"
  proof -
    from m that have "distinct sel" by (rule submset_distinct)
    then show ?thesis
      by (simp add: distinct_map inj_on_subset [OF template_question_inj])
  qed
  with assms(1) s l show ?thesis by (auto simp: template_question_def)
qed

lemma technical_questions_clamped:
  assumes "0 \<le> cnt" "d \<in> {''easy'', ''medium'', ''hard''}"
  shows "\<exists>qs g'. generate_technical_questions g skills cnt d = Inr (qs, g')
           \<and> int (length qs) = min (int (length skills)) cnt
           \<and> (\<forall>q\<in>set qs. q_category q = ''technical'')"
proof -
  from templates_known [of "''technical''" d] assms(2) obtain ts where
    ts: "templates_for ''technical'' d = Inr ts" "length ts = 5" by auto
  then have ne: "ts \<noteq> []" by auto
  from random_sample_clamped [OF assms(1), of g skills] obtain sel g1 where
    s: "random_sample g skills (min (int (length skills)) cnt) = Inr (sel, g1)"
    and l: "int (length sel) = min (int (length skills)) cnt" by blast
  from technical_loop_props [OF ne, of g1 cnt d 0 sel] obtain qs g2 where
    r: "technical_loop g1 ts cnt d 0 sel = Inr (qs, g2)"
    and lq: "int (length qs) = min (int (length sel)) (max 0 (cnt - int 0))"
    and t: "\<forall>q\<in>set qs. q_category q = ''technical''" by blast
  have "int (length qs) = min (int (length skills)) cnt" using lq l assms(1) by simp
  with ts(1) s r t show ?thesis by (simp add: generate_technical_questions_def)
qed

lemma behavioral_questions_clamped:
  assumes "0 \<le> cnt" "d \<in> {''easy'', ''medium'', ''hard''}"
  shows "\<exists>qs g'. generate_behavioral_questions g cnt d = Inr (qs, g')
           \<and> int (length qs) = min 5 cnt
           \<and> (\<forall>q\<in>set qs. q_category q = ''behavioral'') \<and> distinct qs"
proof -
  from templates_known [of "''behavioral''" d] assms(2) obtain ts where
    ts: "templates_for ''behavioral'' d = Inr ts" "length ts = 5" "distinct ts" by auto
  from sampled_templates [OF ts(1) assms(1)] ts(2,3) show ?thesis
    unfolding generate_behavioral_questions_def by fastforce
qed

lemma situational_questions_clamped:
  assumes "0 \<le> cnt" "d \<in> {''easy'', ''medium'', ''hard''}"
  shows "\<exists>qs g'. generate_situational_questions g cnt d = Inr (qs, g')
           \<and> int (length qs) = min 5 cnt
           \<and> (\<forall>q\<in>set qs. q_category q = ''situational'') \<and> distinct qs"
proof -
  from templates_known [of "''situational''" d] assms(2) obtain ts where
    ts: "templates_for ''situational'' d = Inr ts" "length ts = 5" "distinct ts" by auto
  from sampled_templates [OF ts(1) assms(1)] ts(2,3) show ?thesis
    unfolding generate_situational_questions_def by fastforce
qed

lemma general_questions_clamped:
  assumes "0 \<le> cnt" "d \<in> {''easy'', ''medium'', ''hard''}"
  shows "\<exists>qs g'. generate_general_questions g cnt d = Inr (qs, g')
           \<and> int (length qs) = min 5 cnt
           \<and> (\<forall>q\<in>set qs. q_category q = ''general'') \<and> distinct qs"
proof -
  from templates_known [of "''general''" d] assms(2) obtain ts where
    ts: "templates_for ''general'' d = Inr ts" "length ts = 5" "distinct ts" by auto
  from sampled_templates [OF ts(1) assms(1)] ts(2,3) show ?thesis
    unfolding generate_general_questions_def by fastforce
qed




subsection \<open>A batch of ten questions\<close>








text \<open>A run in which one of the two role-specific questions is a coding question.\<close>

lemma generate_coding_question:
  "case generate [0, 0, 0, 0, 5] ''software engineer'' ''intermediate'' (Some [''Python'', ''React'']) 10 of
     Inl e \<Rightarrow> False
   | Inr (qs, g') \<Rightarrow> category_count ''coding'' qs = 1 \<and> category_count ''technical'' qs = 3"
  by code_simp

subsection \<open>Generation never raises\<close>

text \<open>
  Every count that \<open>generate\<close> passes to a sampling function is non-negative, whatever the
  requested number of questions, the role, the level and the skills are; so no call of
  \<open>generate\<close> raises.
\<close>

lemma diff_level_known:
  "(case map_of difficulty_map difficulty of Some l \<Rightarrow> l | None \<Rightarrow> ''medium'')
   \<in> {''easy'', ''medium'', ''hard''}"
  by (simp add: difficulty_map_def)

lemma distribution_nonneg:
  "0 \<le> d_technical (get_question_distribution n)"
  "0 \<le> d_behavioral (get_question_distribution n)"
  "0 \<le> d_situational (get_question_distribution n)"
  "0 \<le> d_general (get_question_distribution n)"
  by (auto simp: get_question_distribution_def max_def)

lemma generate_never_raises:
  "\<exists>qs g'. generate g job_role difficulty resume_skills question_count = Inr (qs, g')"
proof -
  define lvl where "lvl = (case map_of difficulty_map difficulty of Some l \<Rightarrow> l | None \<Rightarrow> ''medium'')"
  define dist where "dist = get_question_distribution question_count"
  have lvl: "lvl \<in> {''easy'', ''medium'', ''hard''}" unfolding lvl_def by (rule diff_level_known)
  note nn = distribution_nonneg [of question_count, folded dist_def]
  have "\<exists>tq g1. (case resume_skills of
                   None \<Rightarrow> Inr ([], g)
                 | Some skills \<Rightarrow>
                     if skills \<noteq> []
                     then generate_technical_questions g skills (d_technical dist) lvl
                     else Inr ([], g)) = Inr (tq, g1)
          \<and> int (length (filter (\<lambda>q. q_category q = ''technical'') tq)) \<le> d_technical dist"
  proof (cases resume_skills)
    case None
    with nn(1) show ?thesis by simp
  next
    case (Some skills)
    show ?thesis
    proof (cases "skills = []")
      case True
      with Some nn(1) show ?thesis by simp
    next
      case False
      from technical_questions_clamped [OF nn(1) lvl, of g skills] obtain tq g1 where
        t: "generate_technical_questions g skills (d_technical dist) lvl = Inr (tq, g1)"
        and l: "int (length tq) = min (int (length skills)) (d_technical dist)" by blast
      have "length (filter (\<lambda>q. q_category q = ''technical'') tq) \<le> length tq" by simp
      with l have "int (length (filter (\<lambda>q. q_category q = ''technical'') tq)) \<le> d_technical dist"
        by linarith
      with Some False t show ?thesis by simp
    qed
  qed
  then obtain tq g1 where
    t1: "(case resume_skills of
            None \<Rightarrow> Inr ([], g)
          | Some skills \<Rightarrow>
              if skills \<noteq> []
              then generate_technical_questions g skills (d_technical dist) lvl
              else Inr ([], g)) = Inr (tq, g1)"
    and t2: "0 \<le> d_technical dist - int (length (filter (\<lambda>q. q_category q = ''technical'') tq))"
    by auto
  from role_specific_clamped [OF t2, of g1 job_role] obtain rq g2 where
    r: "generate_role_specific_questions g1 job_role
          (d_technical dist - int (length (filter (\<lambda>q. q_category q = ''technical'') tq)))
        = Inr (rq, g2)" by blast
  from behavioral_questions_clamped [OF nn(2) lvl, of g2] obtain bq g3 where
    b: "generate_behavioral_questions g2 (d_behavioral dist) lvl = Inr (bq, g3)" by blast
  from situational_questions_clamped [OF nn(3) lvl, of g3] obtain sq g4 where
    s: "generate_situational_questions g3 (d_situational dist) lvl = Inr (sq, g4)" by blast
  from general_questions_clamped [OF nn(4) lvl, of g4] obtain gq g5 where
    gen: "generate_general_questions g4 (d_general dist) lvl = Inr (gq, g5)" by blast
  show ?thesis
    unfolding generate_def Let_def lvl_def [symmetric] dist_def [symmetric]
    using t1 r b s gen by (simp add: case_prod_unfold)
qed

section \<open>Properties of the feedback synthesizer\<close>

lemma fired_buckets:
  assumes "\<forall>(c, b)\<in>set checks. fires b = c"
  shows "map snd (filter fst checks) = filter fires (map snd checks)"
  using assms by (induction checks) auto

lemma choose_template_from_bucket:
  assumes "bucket_pool kind bucket = Inr pool" "pool \<noteq> []"
  shows "\<exists>s g1. choose_template g kind bucket = Inr (s, g1) \<and> from_bucket kind s bucket"
proof -
  obtain j g1 where jg: "randbelow g (length pool) = (j, g1)" by (cases "randbelow g (length pool)")
  have "j < length pool" using randbelow_less [of "length pool" g] jg assms(2) by simp
  then have "pool ! j \<in> set pool" by simp
  with assms jg show ?thesis
    by (simp add: choose_template_def random_choice_def from_bucket_def)
qed

lemma append_choices_props:
  assumes "\<forall>(c, b)\<in>set checks. \<exists>pool. bucket_pool kind b = Inr pool \<and> pool \<noteq> []"
  shows "\<exists>ys g'. append_choices g kind checks xs = Inr (xs @ ys, g')
           \<and> list_all2 (from_bucket kind) ys (map snd (filter fst checks))"
  using assms
proof (induction checks arbitrary: g xs)
  case Nil
  then show ?case by simp
next
  case (Cons check rest)
  obtain cond bucket where ch: "check = (cond, bucket)" by (cases check)
  from Cons.prems have rest: "\<forall>(c, b)\<in>set rest. \<exists>pool. bucket_pool kind b = Inr pool \<and> pool \<noteq> []"
    by simp
  show ?case
  proof (cases cond)
    case False
    with Cons.IH [OF rest, of g xs] ch show ?thesis by simp
  next
    case True
    from Cons.prems ch obtain pool where "bucket_pool kind bucket = Inr pool" "pool \<noteq> []"
      by auto
    from choose_template_from_bucket [OF this, of g] obtain s g1 where
      c: "choose_template g kind bucket = Inr (s, g1)" and f: "from_bucket kind s bucket" by blast
    from Cons.IH [OF rest, of g1 "xs @ [s]"] obtain ys g' where
      r: "append_choices g1 kind rest (xs @ [s]) = Inr ((xs @ [s]) @ ys, g')"
      and l: "list_all2 (from_bucket kind) ys (map snd (filter fst rest))" by blast
    have "append_choices g kind (check # rest) xs = Inr (xs @ (s # ys), g')"
      using ch True c r by simp
    moreover have "list_all2 (from_bucket kind) (s # ys) (map snd (filter fst (check # rest)))"
      using ch True f l by simp
    ultimately show ?thesis by blast
  qed
qed

lemma pools_nonempty:
  "list_all (\<lambda>b. case bucket_pool ''improvements'' b of Inl e \<Rightarrow> False | Inr pool \<Rightarrow> pool \<noteq> [])
     checked_improvement_order"
  "list_all (\<lambda>b. case bucket_pool ''strengths'' b of Inl e \<Rightarrow> False | Inr pool \<Rightarrow> pool \<noteq> [])
     strength_order"
  "list_all (\<lambda>b. case bucket_pool ''suggestions'' b of Inl e \<Rightarrow> False | Inr pool \<Rightarrow> pool \<noteq> [])
     [''technical_improvement'', ''communication_improvement'', ''preparation_tips'']"
  by code_simp+

lemma improvement_checks_buckets:
  "map snd (improvement_checks a) = checked_improvement_order"
  by (simp add: improvement_checks_def checked_improvement_order_def)

lemma strength_checks_buckets: "map snd (strength_checks a) = strength_order"
  by (simp add: strength_checks_def strength_order_def)

lemma suggestion_checks_buckets:
  "map snd (suggestion_checks a)
   = [''technical_improvement'', ''communication_improvement'', ''preparation_tips'']"
  by (simp add: suggestion_checks_def)

lemma pools_for_checks:
  assumes "list_all (\<lambda>b. case bucket_pool kind b of Inl e \<Rightarrow> False | Inr pool \<Rightarrow> pool \<noteq> [])
             (map snd checks)"
  shows "\<forall>(c, b)\<in>set checks. \<exists>pool. bucket_pool kind b = Inr pool \<and> pool \<noteq> []"
  using assms by (induction checks) (auto split: sum.splits)

lemma improvement_checks_fire:
  "\<forall>(c, b)\<in>set (improvement_checks a). improvement_fires a b = c"
  by (auto simp: improvement_checks_def improvement_fires_def)

lemma strength_checks_fire:
  "\<forall>(c, b)\<in>set (strength_checks a). strength_fires a b = c"
  by (auto simp: strength_checks_def strength_fires_def)

lemma improvements_fired:
  "\<exists>imps g'. identify_improvements g a = Inr (imps, g')
     \<and> length imps \<le> 3
     \<and> list_all2 (from_bucket ''improvements'') imps
          (take 3 (filter (improvement_fires a) checked_improvement_order))"
proof -
  have "\<forall>(c, b)\<in>set (improvement_checks a).
          \<exists>pool. bucket_pool ''improvements'' b = Inr pool \<and> pool \<noteq> []"
    by (rule pools_for_checks) (simp add: improvement_checks_buckets pools_nonempty)
  from append_choices_props [OF this, of g "[]"] obtain ys g' where
    r: "append_choices g ''improvements'' (improvement_checks a) [] = Inr (ys, g')"
    and l: "list_all2 (from_bucket ''improvements'') ys (map snd (filter fst (improvement_checks a)))"
    by auto
  from l have "list_all2 (from_bucket ''improvements'') ys
                 (filter (improvement_fires a) checked_improvement_order)"
    unfolding fired_buckets [OF improvement_checks_fire] improvement_checks_buckets .
  then have "list_all2 (from_bucket ''improvements'') (take 3 ys)
               (take 3 (filter (improvement_fires a) checked_improvement_order))"
    by (rule list_all2_takeI)
  with r show ?thesis by (simp add: identify_improvements_def)
qed

lemma strengths_fired:
  "\<exists>strs g'. identify_strengths g a = Inr (strs, g')
     \<and> 1 \<le> length strs \<and> length strs \<le> 3
     \<and> (if filter (strength_fires a) strength_order = []
         then strs = [if overall_score (scores_of a) \<ge> 50
                      then ''Good effort in addressing the question''
                      else ''Thank you for providing a response'']
         else list_all2 (from_bucket ''strengths'') strs
                (take 3 (filter (strength_fires a) strength_order)))"
proof -
  have "\<forall>(c, b)\<in>set (strength_checks a).
          \<exists>pool. bucket_pool ''strengths'' b = Inr pool \<and> pool \<noteq> []"
    by (rule pools_for_checks) (simp add: strength_checks_buckets pools_nonempty)
  from append_choices_props [OF this, of g "[]"] obtain ys g' where
    r: "append_choices g ''strengths'' (strength_checks a) [] = Inr (ys, g')"
    and l: "list_all2 (from_bucket ''strengths'') ys (map snd (filter fst (strength_checks a)))"
    by auto
  from l have l': "list_all2 (from_bucket ''strengths'') ys (filter (strength_fires a) strength_order)"
    unfolding fired_buckets [OF strength_checks_fire] strength_checks_buckets .
  show ?thesis
  proof (cases "ys = []")
    case True
    with l' have "filter (strength_fires a) strength_order = []" by simp
    with True r show ?thesis by (simp add: identify_strengths_def)
  next
    case False
    with l' have ne: "filter (strength_fires a) strength_order \<noteq> []" by auto
    from l' have "list_all2 (from_bucket ''strengths'') (take 3 ys)
               (take 3 (filter (strength_fires a) strength_order))"
      by (rule list_all2_takeI)
    moreover have "1 \<le> length (take 3 ys)" using False by (cases ys) simp_all
    ultimately show ?thesis using False ne r by (simp add: identify_strengths_def)
  qed
qed

lemma suggestions_capped:
  "case generate_suggestions g a of
     Inl e \<Rightarrow> e = KeyError \<and> (\<exists>ia. a = Insufficient ia)
   | Inr (sugs, g') \<Rightarrow> (\<exists>subs sc. a = Analysis subs sc) \<and> 1 \<le> length sugs \<and> length sugs \<le> 4"
proof -
  have "\<forall>(c, b)\<in>set (suggestion_checks a).
          \<exists>pool. bucket_pool ''suggestions'' b = Inr pool \<and> pool \<noteq> []"
    by (rule pools_for_checks) (simp only: suggestion_checks_buckets pools_nonempty(3))
  from append_choices_props [OF this, of g "[]"] obtain ys g' where
    r: "append_choices g ''suggestions'' (suggestion_checks a) [] = Inr (ys, g')"
    by auto
  show ?thesis
  proof (cases a)
    case (Insufficient ia)
    with r show ?thesis by (simp add: generate_suggestions_def)
  next
    case (Analysis subs sc)
    have "1 \<le> length (take 4 zs)" if "zs \<noteq> []" for zs :: "string list"
      using that by (cases zs) simp_all
    with Analysis r show ?thesis
      by (simp add: generate_suggestions_def Let_def)
  qed
qed

text \<open>
  Claim C9 (amended). For every analysis the improvements are at most 3: one template from
  each of the first 3 fired buckets in the order in which the source checks them
  (low_technical, poor_structure, low_confidence, insufficient_examples, too_brief,
  too_verbose, incomplete). The strengths are between 1 and 3: one template from each of
  the first 3 fired strength buckets, or the single default string chosen by
  \<open>overall_score \<ge> 50\<close> when no bucket fires. The suggestions, for every analysis of the
  normal path, are between 1 and 4; on the insufficient-answer analysis the suggestion
  step raises KeyError, since that dict has no \<open>star_score\<close>.
\<close>

theorem feedback_lists_capped:
  "(\<exists>imps g'. identify_improvements g a = Inr (imps, g')
      \<and> length imps \<le> 3
      \<and> list_all2 (from_bucket ''improvements'') imps
           (take 3 (filter (improvement_fires a) checked_improvement_order)))
   \<and> (\<exists>strs g'. identify_strengths g a = Inr (strs, g')
      \<and> 1 \<le> length strs \<and> length strs \<le> 3
      \<and> (if filter (strength_fires a) strength_order = []
          then strs = [if overall_score (scores_of a) \<ge> 50
                       then ''Good effort in addressing the question''
                       else ''Thank you for providing a response'']
          else list_all2 (from_bucket ''strengths'') strs
                 (take 3 (filter (strength_fires a) strength_order))))
   \<and> (case generate_suggestions g a of
         Inl e \<Rightarrow> e = KeyError \<and> (\<exists>ia. a = Insufficient ia)
       | Inr (sugs, g') \<Rightarrow> (\<exists>subs sc. a = Analysis subs sc) \<and> 1 \<le> length sugs \<and> length sugs \<le> 4)"
  by (intro conjI improvements_fired strengths_fired suggestions_capped)

theorem feedback_lists_capped_witness:
  "\<exists>imps g'. identify_improvements [] keyword_analysis = Inr (imps, g')
      \<and> length imps \<le> 3
      \<and> list_all2 (from_bucket ''improvements'') imps
           [''poor_structure'', ''insufficient_examples'', ''too_brief'']"
proof -
  have "take 3 (filter (improvement_fires keyword_analysis) checked_improvement_order)
        = [''poor_structure'', ''insufficient_examples'', ''too_brief'']"
    by code_simp
  with feedback_lists_capped [of "[]" keyword_analysis] show ?thesis by simp
qed

text \<open>
  For the keyword answer four buckets fire. In the listed order (incomplete before
  too_brief) the third improvement would come from the bucket incomplete; the source
  returns a template of too_brief.
\<close>

theorem listed_order_counterexample:
  "identify_improvements [] keyword_analysis
     = Inr ([''Try to organize your response with a clearer structure'',
             ''Include more specific examples from your experience'',
             ''Expand your response with more detail and examples''], [])
   \<and> \<not> list_all2 (from_bucket ''improvements'')
         [''Try to organize your response with a clearer structure'',
          ''Include more specific examples from your experience'',
          ''Expand your response with more detail and examples'']
         (take 3 (filter (improvement_fires keyword_analysis) listed_improvement_order))"
  by code_simp

subsection \<open>The feedback packet\<close>

text \<open>
  \<open>generate_feedback\<close> builds a packet for every analysis of the normal path. On the
  insufficient-answer analysis it raises KeyError: the strengths and the improvements are
  computed, then \<open>_generate_suggestions\<close> reads \<open>star_score\<close>, which that dict lacks.
\<close>

lemma generate_feedback_insufficient:
  "generate_feedback g (Insufficient ia) = Inl KeyError"
proof -
  from strengths_fired [of g "Insufficient ia"] obtain strs g1 where
    s: "identify_strengths g (Insufficient ia) = Inr (strs, g1)" by blast
  from improvements_fired [of g1 "Insufficient ia"] obtain imps g2 where
    i: "identify_improvements g1 (Insufficient ia) = Inr (imps, g2)" by blast
  from suggestions_capped [where g = g2 and a = "Insufficient ia"]
  have "generate_suggestions g2 (Insufficient ia) = Inl KeyError"
    by (cases "generate_suggestions g2 (Insufficient ia)") auto
  with s i show ?thesis by (simp add: generate_feedback_def Let_def)
qed

lemma generate_feedback_normal:
  "\<exists>fb g'. generate_feedback g (Analysis subs sc) = Inr (fb, g')
     \<and> length (fb_strengths fb) \<le> 3 \<and> length (fb_improvements fb) \<le> 3
     \<and> length (fb_suggestions fb) \<le> 4"
proof -
  from strengths_fired [of g "Analysis subs sc"] obtain strs g1 where
    s: "identify_strengths g (Analysis subs sc) = Inr (strs, g1)" "length strs \<le> 3" by blast
  from improvements_fired [of g1 "Analysis subs sc"] obtain imps g2 where
    i: "identify_improvements g1 (Analysis subs sc) = Inr (imps, g2)" "length imps \<le> 3" by blast
  from suggestions_capped [where g = g2 and a = "Analysis subs sc"] obtain sugs g3 where
    u: "generate_suggestions g2 (Analysis subs sc) = Inr (sugs, g3)" "length sugs \<le> 4"
    by (cases "generate_suggestions g2 (Analysis subs sc)") auto
  from s i u show ?thesis by (simp add: generate_feedback_def Let_def)
qed


end
